theory Spec2Isabelle
  imports
    Main
    "HOL-Library.Word"
    "HOL-Library.Signed_Division"
begin

section \<open>The acerhdf fan driver for the Acer Predator PH517-51\<close>

text \<open>
  A shallow embedding of \<^verbatim>\<open>src/acerhdf.c\<close>. The driver's file-scope variables
  form one record that every function takes and returns. The two parts of the outside
  world which the driver touches are part of that record as well: the memory holding the
  thermal zone objects of the kernel's thermal framework, and the log of every access to
  the embedded controller (EC). Diagnostic output (\<^verbatim>\<open>pr_notice\<close>, \<^verbatim>\<open>pr_err\<close>,
  \<^verbatim>\<open>pr_info\<close>) is not modelled, and neither are the variables \<^verbatim>\<open>verbose\<close> and
  \<^verbatim>\<open>fan_speed_debug\<close>, which only switch such output on.
\<close>

subsection \<open>Machine types\<close>

text \<open>
  The driver is built for x86-64 Linux: \<^verbatim>\<open>int\<close> and \<^verbatim>\<open>unsigned int\<close> have 32 bits,
  \<^verbatim>\<open>unsigned long\<close> has 64 bits and \<^verbatim>\<open>u8\<close> has 8 bits. Arithmetic on words wraps
  around (the kernel is compiled with \<^verbatim>\<open>-fno-strict-overflow\<close>). A signed value is a
  word read with \<^const>\<open>sint\<close> and compared with \<open><s\<close>; an unsigned value is a word
  read with \<^const>\<open>uint\<close> or \<^const>\<open>unat\<close> and compared with \<open><\<close>.
\<close>

type_synonym u8 = "8 word"
type_synonym c_int = "32 word"
type_synonym c_uint = "32 word"
type_synonym c_ulong = "64 word"

text \<open>Error codes returned (negated) by the driver's functions.\<close>

datatype errno = EINVAL | ECANCELED

subsection \<open>Constants of the driver\<close>

definition TEMPERATURE_SAMPLES :: nat where
  "TEMPERATURE_SAMPLES = 10"

definition MIN_FAN_SPEED :: c_ulong where
  "MIN_FAN_SPEED = 4"

definition ACERHDF_TEMP_CRIT :: c_int where
  "ACERHDF_TEMP_CRIT = 89"

definition ACERHDF_MAX_FANON :: c_uint where
  "ACERHDF_MAX_FANON = 80000"

definition ACERHDF_MAX_INTERVAL :: c_uint where
  "ACERHDF_MAX_INTERVAL = 15"

subsection \<open>Data\<close>

record fancmd =
  cmd_off :: u8
  cmd_auto :: u8

text \<open>
  A C string is the list of its characters before the terminating NUL, so
  \<^verbatim>\<open>s[0] == 0\<close> is \<open>s = []\<close> and \<^verbatim>\<open>strlen\<close> is \<^const>\<open>length\<close>.
\<close>

record bios_settings =
  vendor :: string
  product :: string
  version :: string
  fanreg :: u8
  tempreg :: u8
  cmd :: fancmd
  mcmd_enable :: c_int

record ctrl_settings =
  fanreg :: u8
  tempreg :: u8
  cmd :: fancmd
  mcmd_enable :: c_int

text \<open>
  \<^verbatim>\<open>struct thermal_zone_device\<close> belongs to the kernel; the driver reads and writes
  only its field \<^verbatim>\<open>polling_delay\<close> (an \<^verbatim>\<open>int\<close>, in milliseconds). A pointer to a
  zone is an address into the memory \<open>tz_mem\<close> of the state; \<^verbatim>\<open>NULL\<close> is \<open>None\<close>.
\<close>

record thermal_zone_device =
  polling_delay :: c_int

type_synonym tz_ptr = nat

datatype thermal_trip_type =
  THERMAL_TRIP_ACTIVE | THERMAL_TRIP_PASSIVE | THERMAL_TRIP_HOT | THERMAL_TRIP_CRITICAL

text \<open>
  The EC is reached through the kernel's \<^verbatim>\<open>ec_read\<close> and \<^verbatim>\<open>ec_write\<close>. Every call
  is appended to the log \<open>ec_log\<close>. What a read returns is decided by the environment:
  an \<open>ec_bus\<close> maps the log so far and the register to the byte read, or to \<open>None\<close>
  when the read fails. The driver ignores the result of \<^verbatim>\<open>ec_write\<close>.
\<close>

datatype ec_event = EcRead u8 "u8 option" | EcWrite u8 u8

type_synonym ec_bus = "ec_event list \<Rightarrow> u8 \<Rightarrow> u8 option"

record acerhdf =
  kernelmode :: c_int
  interval :: c_uint
  fanon :: c_uint
  fanoff :: c_uint
  samples :: "c_int list"
  current_sample :: c_int
  list_supported :: c_uint
  fanstate :: c_uint
  force_bios :: string
  force_product :: string
  prev_interval :: c_uint
  thz_dev :: "tz_ptr option"
  ctrl_cfg :: ctrl_settings
  tz_mem :: "tz_ptr \<Rightarrow> thermal_zone_device"
  ec_log :: "ec_event list"

text \<open>What \<^verbatim>\<open>dmi_get_system_info\<close> returns for the three fields the driver asks for.\<close>

record dmi_info =
  DMI_SYS_VENDOR :: "string option"
  DMI_BIOS_VERSION :: "string option"
  DMI_PRODUCT_NAME :: "string option"

text \<open>The table of the source: one profile and the terminating row.\<close>

definition bios_tbl :: "bios_settings list" where
  "bios_tbl =
    [\<lparr>vendor = ''Acer'', product = ''Predator PH517-51'', version = ''V1.06'',
      fanreg = 0x4f, tempreg = 0x58, cmd = \<lparr>cmd_off = 0x14, cmd_auto = 0x04\<rparr>,
      mcmd_enable = 1\<rparr>,
     \<lparr>vendor = '''', product = '''', version = '''',
      fanreg = 0, tempreg = 0, cmd = \<lparr>cmd_off = 0, cmd_auto = 0\<rparr>,
      mcmd_enable = 0\<rparr>]"

subsection \<open>EC access\<close>

definition ec_read :: "ec_bus \<Rightarrow> u8 \<Rightarrow> acerhdf \<Rightarrow> u8 option \<times> acerhdf" where
  "ec_read E reg s =
    (let r = E (ec_log s) reg in (r, s\<lparr>ec_log := ec_log s @ [EcRead reg r]\<rparr>))"

definition ec_write :: "u8 \<Rightarrow> u8 \<Rightarrow> acerhdf \<Rightarrow> acerhdf" where
  "ec_write reg val s = s\<lparr>ec_log := ec_log s @ [EcWrite reg val]\<rparr>"

text \<open>\<^verbatim>\<open>acerhdf_get_temp(int *temp)\<close>: the value for \<^verbatim>\<open>*temp\<close> is returned.\<close>

definition acerhdf_get_temp :: "ec_bus \<Rightarrow> acerhdf \<Rightarrow> (errno + c_int) \<times> acerhdf" where
  "acerhdf_get_temp E s =
    (case ec_read E (ctrl_settings.tempreg (ctrl_cfg s)) s of
       (None, s') \<Rightarrow> (Inl EINVAL, s')
     | (Some read_temp, s') \<Rightarrow> (Inr (ucast read_temp), s'))"

definition acerhdf_get_fanstate :: "ec_bus \<Rightarrow> acerhdf \<Rightarrow> (errno + c_int) \<times> acerhdf" where
  "acerhdf_get_fanstate E s =
    (case ec_read E (ctrl_settings.fanreg (ctrl_cfg s)) s of
       (None, s') \<Rightarrow> (Inl EINVAL, s')
     | (Some fan, s') \<Rightarrow> (Inr (ucast fan), s'))"

definition acerhdf_change_fanstate :: "c_int \<Rightarrow> acerhdf \<Rightarrow> acerhdf" where
  "acerhdf_change_fanstate state s =
    ec_write (ctrl_settings.fanreg (ctrl_cfg s)) (ucast state) (s\<lparr>fanstate := state\<rparr>)"

subsection \<open>Parameter check and the thermal zone callbacks\<close>

definition acerhdf_check_param :: "tz_ptr \<Rightarrow> acerhdf \<Rightarrow> acerhdf" where
  "acerhdf_check_param thermal s =
    (let s1 = (if ACERHDF_MAX_FANON < fanon s then s\<lparr>fanon := ACERHDF_MAX_FANON\<rparr> else s)
     in if kernelmode s1 \<noteq> 0 \<and> prev_interval s1 \<noteq> interval s1 then
          let s2 = (if ACERHDF_MAX_INTERVAL < interval s1
                    then s1\<lparr>interval := ACERHDF_MAX_INTERVAL\<rparr> else s1);
              s3 = s2\<lparr>tz_mem := (tz_mem s2)
                     (thermal := (tz_mem s2 thermal)\<lparr>polling_delay := interval s2 * 1000\<rparr>)\<rparr>
          in s3\<lparr>prev_interval := interval s3\<rparr>
        else s1)"

definition acerhdf_get_ec_temp ::
  "ec_bus \<Rightarrow> tz_ptr \<Rightarrow> acerhdf \<Rightarrow> (errno + c_int) \<times> acerhdf" where
  "acerhdf_get_ec_temp E thermal s = acerhdf_get_temp E (acerhdf_check_param thermal s)"

definition acerhdf_revert_to_bios_mode :: "acerhdf \<Rightarrow> acerhdf" where
  "acerhdf_revert_to_bios_mode s =
    (let s1 = acerhdf_change_fanstate 5 s;
         s2 = s1\<lparr>kernelmode := 0\<rparr>
     in case thz_dev s2 of
          None \<Rightarrow> s2
        | Some z \<Rightarrow> s2\<lparr>tz_mem := (tz_mem s2)(z := (tz_mem s2 z)\<lparr>polling_delay := 0\<rparr>)\<rparr>)"

definition acerhdf_get_trip_type :: "c_int \<Rightarrow> errno + thermal_trip_type" where
  "acerhdf_get_trip_type trip =
    (if trip = 0 then Inr THERMAL_TRIP_ACTIVE
     else if trip = 1 then Inr THERMAL_TRIP_CRITICAL
     else Inl EINVAL)"

definition acerhdf_get_trip_hyst :: "acerhdf \<Rightarrow> c_int \<Rightarrow> errno + c_int" where
  "acerhdf_get_trip_hyst s trip =
    (if trip \<noteq> 0 then Inl EINVAL else Inr (fanon s - fanoff s))"

definition acerhdf_get_trip_temp :: "acerhdf \<Rightarrow> c_int \<Rightarrow> errno + c_int" where
  "acerhdf_get_trip_temp s trip =
    (if trip = 0 then Inr (fanon s)
     else if trip = 1 then Inr ACERHDF_TEMP_CRIT
     else Inl EINVAL)"

definition acerhdf_get_crit_temp :: "errno + c_int" where
  "acerhdf_get_crit_temp = Inr ACERHDF_TEMP_CRIT"

subsection \<open>The control loop\<close>

text \<open>
  The loop \<^verbatim>\<open>for (i = 0; i < TEMPERATURE_SAMPLES; i++) cur_temp += samples[i]\<close>,
  run over the array's elements with the accumulator \<^verbatim>\<open>cur_temp\<close>.
\<close>

fun sum_samples :: "c_int list \<Rightarrow> c_int \<Rightarrow> c_int" where
  "sum_samples [] cur_temp = cur_temp"
| "sum_samples (x # xs) cur_temp = sum_samples xs (cur_temp + x)"

text \<open>
  Lines 441 to 445: the sum of the ring divided by \<^verbatim>\<open>TEMPERATURE_SAMPLES\<close>. Division
  of \<^verbatim>\<open>int\<close> in C truncates towards zero, which is \<open>sdiv\<close>.
\<close>

definition avg_temp :: "c_int list \<Rightarrow> c_int" where
  "avg_temp smp =
    word_of_int (sint (sum_samples (take TEMPERATURE_SAMPLES smp) 0) sdiv int TEMPERATURE_SAMPLES)"

text \<open>
  Lines 457 to 478: the chain of comparisons on \<^verbatim>\<open>cur_temp\<close> assigns the
  \<^verbatim>\<open>unsigned long state\<close> in each of its branches, then the minimum is enforced.
\<close>

definition fan_schedule :: "c_int \<Rightarrow> c_ulong" where
  "fan_schedule cur_temp =
    (let state =
       (if cur_temp <s 40 then 3
        else if cur_temp <s 45 then 4
        else if cur_temp <s 48 then 5
        else if cur_temp <s 50 then 6
        else if cur_temp <s 55 then 7
        else if cur_temp <s 60 then 8
        else if cur_temp <s 65 then 9
        else if cur_temp <s 70 then 10
        else 11)
     in if state < MIN_FAN_SPEED then MIN_FAN_SPEED else state)"

text \<open>
  Lines 433 to 436. The cursor indexes the array \<^verbatim>\<open>samples\<close> of ten elements; it
  starts at 0 and this is its only assignment, so it stays within 0 and 9.
\<close>

definition advance_sample :: "acerhdf \<Rightarrow> acerhdf" where
  "advance_sample s =
    (let s1 = s\<lparr>current_sample := current_sample s + 1\<rparr>
     in if word_of_nat (TEMPERATURE_SAMPLES - 1) <s current_sample s1
        then s1\<lparr>current_sample := 0\<rparr> else s1)"

text \<open>
  \<^verbatim>\<open>acerhdf_set_cur_state(cdev, state)\<close>. The parameter \<^verbatim>\<open>state\<close> is assigned before
  it is read on every path that reads it. A failed temperature read leaves
  \<^verbatim>\<open>samples[current_sample]\<close> as it was. A store through a cursor outside the array
  is undefined in C; the list update of the model has no meaning there, and every
  property below that depends on the sample stored assumes the cursor within 0 and 9.
\<close>

definition acerhdf_set_cur_state ::
  "ec_bus \<Rightarrow> c_ulong \<Rightarrow> acerhdf \<Rightarrow> (errno + unit) \<times> acerhdf" where
  "acerhdf_set_cur_state E state s =
    (if kernelmode s = 0 then (Inr (), s)
     else
       (case acerhdf_get_temp E s of
          (Inl err, s1) \<Rightarrow>
            (Inl EINVAL, acerhdf_revert_to_bios_mode (advance_sample s1))
        | (Inr temp, s1) \<Rightarrow>
            (let s2 = s1\<lparr>samples := (samples s1)[nat (sint (current_sample s1)) := temp]\<rparr>;
                 s3 = advance_sample s2;
                 cur_temp = avg_temp (samples s3)
             in (case acerhdf_get_fanstate E s3 of
                   (Inl err, s4) \<Rightarrow> (Inl EINVAL, acerhdf_revert_to_bios_mode s4)
                 | (Inr cur_state, s4) \<Rightarrow>
                     (Inr (), acerhdf_change_fanstate (ucast (fan_schedule cur_temp)) s4)))))"

text \<open>A sequence of ticks, one for each state the governor requests.\<close>

fun run_ticks :: "ec_bus \<Rightarrow> c_ulong list \<Rightarrow> acerhdf \<Rightarrow> acerhdf" where
  "run_ticks E [] s = s"
| "run_ticks E (state # states) s = run_ticks E states (snd (acerhdf_set_cur_state E state s))"

subsection \<open>Hardware check at module initialisation\<close>

text \<open>
  \<^verbatim>\<open>strncmp(s1, s2, n)\<close> compares at most \<open>n\<close> characters and stops at the end of
  a string; the result is zero, or the difference of the first two characters that differ.
\<close>

fun strncmp :: "string \<Rightarrow> string \<Rightarrow> nat \<Rightarrow> int" where
  "strncmp s1 s2 0 = 0"
| "strncmp [] [] (Suc n) = 0"
| "strncmp [] (b # s2) (Suc n) = - of_char b"
| "strncmp (a # s1) [] (Suc n) = of_char a"
| "strncmp (a # s1) (b # s2) (Suc n) =
     (if a = b then strncmp s1 s2 n else of_char a - of_char b)"

text \<open>\<^verbatim>\<open>str_starts_with\<close> returns 1 or 0; the model returns the truth value.\<close>

definition str_starts_with :: "string \<Rightarrow> string \<Rightarrow> bool" where
  "str_starts_with str start =
    (let str_len = length str; start_len = length start
     in if str_len \<ge> start_len \<and> strncmp str start start_len = 0 then True else False)"

text \<open>
  The loop of lines 590 to 601 walks the table from its first row. It stops without a
  result at a row whose vendor is empty, and with the row at the first one that the three
  strings start with. The source's table ends with a row whose vendor is empty; a table
  without one is not walked beyond its last row here.
\<close>

fun bios_tbl_search ::
  "bios_settings list \<Rightarrow> string \<Rightarrow> string \<Rightarrow> string \<Rightarrow> bios_settings option" where
  "bios_tbl_search [] sys_vendor sys_product sys_version = None"
| "bios_tbl_search (bt # rest) sys_vendor sys_product sys_version =
     (if vendor bt = [] then None
      else if str_starts_with sys_vendor (vendor bt) \<and>
              str_starts_with sys_product (product bt) \<and>
              str_starts_with sys_version (version bt)
           then Some bt
      else bios_tbl_search rest sys_vendor sys_product sys_version)"

text \<open>Lines 610 to 613: the settings copied from the row found.\<close>

definition copy_ctrl_settings :: "bios_settings \<Rightarrow> ctrl_settings" where
  "copy_ctrl_settings bt =
    \<lparr>fanreg = bios_settings.fanreg bt, tempreg = bios_settings.tempreg bt,
     cmd = bios_settings.cmd bt, mcmd_enable = bios_settings.mcmd_enable bt\<rparr>"

text \<open>
  \<^verbatim>\<open>acerhdf_check_hardware\<close>, with the table as a parameter; the source passes
  \<^const>\<open>bios_tbl\<close>. The strings \<^verbatim>\<open>force_bios\<close> and \<^verbatim>\<open>force_product\<close> replace
  the BIOS version and the product name when they are not empty.
\<close>

definition acerhdf_check_hardware ::
  "bios_settings list \<Rightarrow> dmi_info \<Rightarrow> acerhdf \<Rightarrow> (errno + unit) \<times> acerhdf" where
  "acerhdf_check_hardware tbl dmi s =
    (case (DMI_SYS_VENDOR dmi, DMI_BIOS_VERSION dmi, DMI_PRODUCT_NAME dmi) of
       (Some sys_vendor, Some bios_version, Some product_name) \<Rightarrow>
         if list_supported s \<noteq> 0 then (Inl ECANCELED, s)
         else
           (let sys_version = (if force_bios s \<noteq> [] then force_bios s else bios_version);
                s1 = (if force_bios s \<noteq> [] then s\<lparr>kernelmode := 0\<rparr> else s);
                sys_product = (if force_product s1 \<noteq> [] then force_product s1 else product_name);
                s2 = (if force_product s1 \<noteq> [] then s1\<lparr>kernelmode := 0\<rparr> else s1);
                s3 = s2\<lparr>samples := replicate TEMPERATURE_SAMPLES 0\<rparr>
            in (case bios_tbl_search tbl sys_vendor sys_product sys_version of
                  None \<Rightarrow> (Inl EINVAL, s3)
                | Some bt \<Rightarrow> (Inr (), s3\<lparr>ctrl_cfg := copy_ctrl_settings bt\<rparr>)))
     | _ \<Rightarrow> (Inl EINVAL, s))"

text \<open>
  \<^verbatim>\<open>acerhdf_init\<close> returns the error of the hardware check at once. Otherwise it goes
  on to register the platform driver and the thermal devices with the kernel (lines 700
  to 712), which is the parameter \<open>register\<close> here.
\<close>

definition acerhdf_init ::
  "bios_settings list \<Rightarrow> dmi_info \<Rightarrow> (acerhdf \<Rightarrow> (errno + unit) \<times> acerhdf) \<Rightarrow> acerhdf
    \<Rightarrow> (errno + unit) \<times> acerhdf" where
  "acerhdf_init tbl dmi register s =
    (case acerhdf_check_hardware tbl dmi s of
       (Inl err, s') \<Rightarrow> (Inl err, s')
     | (Inr u, s') \<Rightarrow> register s')"

subsection \<open>The fan schedule as the specification tabulates it\<close>

definition spec_schedule_table :: "int \<Rightarrow> int" where
  "spec_schedule_table t =
    (if t < 40 then 3
     else if 40 \<le> t \<and> t < 45 then 4
     else if 45 \<le> t \<and> t < 48 then 5
     else if 48 \<le> t \<and> t < 50 then 6
     else if 50 \<le> t \<and> t < 55 then 7
     else if 55 \<le> t \<and> t < 60 then 8
     else if 60 \<le> t \<and> t < 65 then 9
     else if 65 \<le> t \<and> t < 70 then 10
     else 11)"

definition spec_schedule :: "int \<Rightarrow> int" where
  "spec_schedule t = max (spec_schedule_table t) 4"

subsection \<open>Identity matching as the specification words it\<close>

text \<open>
  A row's string is a prefix of the observed one when the observed string is at least as
  long and its first characters, as many as the row's string has, are the row's string.
\<close>

definition spec_is_prefix :: "string \<Rightarrow> string \<Rightarrow> bool" where
  "spec_is_prefix row observed \<longleftrightarrow>
    length observed \<ge> length row \<and> take (length row) observed = row"

definition row_matches :: "string \<Rightarrow> string \<Rightarrow> string \<Rightarrow> bios_settings \<Rightarrow> bool" where
  "row_matches sys_vendor sys_product sys_version bt \<longleftrightarrow>
    spec_is_prefix (vendor bt) sys_vendor \<and>
    spec_is_prefix (product bt) sys_product \<and>
    spec_is_prefix (version bt) sys_version"

text \<open>The rows in front of the first row with an empty vendor, in the table's order.\<close>

definition rows_before_sentinel :: "bios_settings list \<Rightarrow> bios_settings list" where
  "rows_before_sentinel tbl = takeWhile (\<lambda>bt. vendor bt \<noteq> []) tbl"

text \<open>The strings the rows are compared with: a forced string replaces the one read.\<close>

definition observed_version :: "acerhdf \<Rightarrow> string \<Rightarrow> string" where
  "observed_version s bios_version = (if force_bios s \<noteq> [] then force_bios s else bios_version)"

definition observed_product :: "acerhdf \<Rightarrow> string \<Rightarrow> string" where
  "observed_product s product_name =
    (if force_product s \<noteq> [] then force_product s else product_name)"

subsection \<open>Observations on a run\<close>

text \<open>The writes to the EC in a log, as pairs of register and value, oldest first.\<close>

fun ec_writes :: "ec_event list \<Rightarrow> (u8 \<times> u8) list" where
  "ec_writes [] = []"
| "ec_writes (EcWrite reg val # log) = (reg, val) # ec_writes log"
| "ec_writes (EcRead reg r # log) = ec_writes log"

text \<open>
  The two failures a tick can meet: the read of the temperature register fails, or it
  succeeds and the read of the fan register that follows it fails.
\<close>

definition temp_read_fails :: "ec_bus \<Rightarrow> acerhdf \<Rightarrow> bool" where
  "temp_read_fails E s \<longleftrightarrow> E (ec_log s) (ctrl_settings.tempreg (ctrl_cfg s)) = None"

definition fan_read_fails :: "ec_bus \<Rightarrow> acerhdf \<Rightarrow> bool" where
  "fan_read_fails E s \<longleftrightarrow>
    (case E (ec_log s) (ctrl_settings.tempreg (ctrl_cfg s)) of
       None \<Rightarrow> False
     | Some v \<Rightarrow>
         E (ec_log s @ [EcRead (ctrl_settings.tempreg (ctrl_cfg s)) (Some v)])
           (ctrl_settings.fanreg (ctrl_cfg s)) = None)"

text \<open>
  The sample ring on its own, as the pair of the array and the cursor: what one tick with
  a successful temperature read does to it.
\<close>

definition next_sample :: "c_int \<Rightarrow> c_int" where
  "next_sample c = (if 9 <s c + 1 then 0 else c + 1)"

definition store_sample :: "c_int \<Rightarrow> c_int list \<times> c_int \<Rightarrow> c_int list \<times> c_int" where
  "store_sample v r = ((fst r)[nat (sint (snd r)) := v], next_sample (snd r))"

subsection \<open>Concrete states and environments\<close>

text \<open>The variables as their initialisers leave them when the module is loaded.\<close>

definition module_loaded :: acerhdf where
  "module_loaded =
    \<lparr>kernelmode = 1, interval = 1, fanon = 30, fanoff = 53000,
     samples = replicate 10 0, current_sample = 0, list_supported = 0, fanstate = 1,
     force_bios = [], force_product = [], prev_interval = 0, thz_dev = None,
     ctrl_cfg = \<lparr>fanreg = 0, tempreg = 0, cmd = \<lparr>cmd_off = 0, cmd_auto = 0\<rparr>, mcmd_enable = 0\<rparr>,
     tz_mem = (\<lambda>z. \<lparr>polling_delay = 0\<rparr>), ec_log = []\<rparr>"

text \<open>
  The state while \<^verbatim>\<open>thermal_zone_device_register\<close> runs: the hardware check has
  selected the profile, the zone exists at address 0 with the polling delay of one
  second it was registered with, and \<^verbatim>\<open>thz_dev\<close> is still \<^verbatim>\<open>NULL\<close>, since it is
  assigned when the registration returns.
\<close>

definition zone_registering :: acerhdf where
  "zone_registering =
    module_loaded\<lparr>ctrl_cfg := copy_ctrl_settings (hd bios_tbl),
                  tz_mem := (\<lambda>z. \<lparr>polling_delay = 1000\<rparr>)\<rparr>"

text \<open>The state once the registration has returned the zone at address 0.\<close>

definition zone_running :: acerhdf where
  "zone_running = zone_registering\<lparr>thz_dev := Some 0\<rparr>"

text \<open>An EC on which every read fails, and one on which every read returns 70.\<close>

definition ec_dead :: ec_bus where
  "ec_dead log reg = None"

definition ec_warm :: ec_bus where
  "ec_warm log reg = Some 70"

text \<open>
  An EC on which every read of register \<open>0x58\<close>, the temperature register of the
  profile, returns 70 and every read of any other register fails.
\<close>

definition ec_fan_dead :: ec_bus where
  "ec_fan_dead log reg = (if reg = 0x58 then Some 70 else None)"

text \<open>The identity of the specification's third scenario.\<close>

definition scenario_dmi :: dmi_info where
  "scenario_dmi =
    \<lparr>DMI_SYS_VENDOR = Some ''Acer Inc.'', DMI_BIOS_VERSION = Some ''V1.06.2024'',
     DMI_PRODUCT_NAME = Some ''Predator PH517-51 Gen 1''\<rparr>"

text \<open>
  The identity of the specification's fourth scenario, and a registration step that
  succeeds without doing anything.
\<close>

definition dell_dmi :: dmi_info where
  "dell_dmi =
    \<lparr>DMI_SYS_VENDOR = Some ''Dell'', DMI_BIOS_VERSION = Some ''V1.06'',
     DMI_PRODUCT_NAME = Some ''Predator PH517-51''\<rparr>"

definition no_registration :: "acerhdf \<Rightarrow> (errno + unit) \<times> acerhdf" where
  "no_registration s = (Inr (), s)"

section \<open>Properties\<close>

subsection \<open>The fan schedule\<close>

lemma fan_schedule_sint:
  "uint (fan_schedule t) = spec_schedule (sint t)"
  by (simp add: fan_schedule_def spec_schedule_def spec_schedule_table_def MIN_FAN_SPEED_def
      word_sless_alt Let_def)


text \<open>
  \<^bold>\<open>C2.\<close> For every smoothed temperature \<open>t\<close> the schedule of the source yields the
  state of the specification's table (below 40: 3, from 40: 4, from 45: 5, from 48: 6,
  from 50: 7, from 55: 8, from 60: 9, from 65: 10, from 70: 11), raised to at least
  \<^verbatim>\<open>MIN_FAN_SPEED\<close>, which is 4. The temperatures 39, 40, 47, 48, 69 and 70 yield the
  states 4, 4, 5, 6, 10 and 11.
\<close>

theorem fan_schedule_follows_table:
  "uint (fan_schedule t) = max (spec_schedule_table (sint t)) (uint MIN_FAN_SPEED) \<and>
   uint MIN_FAN_SPEED = 4 \<and>
   map fan_schedule [39, 40, 47, 48, 69, 70] = [4, 4, 5, 6, 10, 11]"
proof -
  have "map fan_schedule [39, 40, 47, 48, 69, 70] = [4, 4, 5, 6, 10, 11]"
    by (simp add: fan_schedule_def MIN_FAN_SPEED_def Let_def)
  then show ?thesis
    by (simp add: fan_schedule_sint spec_schedule_def MIN_FAN_SPEED_def)
qed

text \<open>
  \<^bold>\<open>C3.\<close> For every smoothed temperature the scheduled state lies between 4 and 11, and
  the schedule is monotonic: a temperature that is not higher (as a signed number) is
  given a state that is not higher.
\<close>

theorem fan_schedule_bounded_monotonic:
  "4 \<le> fan_schedule t \<and> fan_schedule t \<le> 11 \<and>
   (t1 \<le>s t2 \<longrightarrow> fan_schedule t1 \<le> fan_schedule t2)"
proof -
  have "4 \<le> fan_schedule t \<and> fan_schedule t \<le> 11"
    by (simp add: fan_schedule_def MIN_FAN_SPEED_def Let_def)
  moreover have "fan_schedule t1 \<le> fan_schedule t2" if "t1 \<le>s t2"
    using that
    by (simp add: word_le_def fan_schedule_sint spec_schedule_def spec_schedule_table_def
        word_sle_eq)
  ultimately show ?thesis by blast
qed

theorem fan_schedule_bounded_monotonic_witness:
  "(39 :: c_int) \<le>s 70 \<and> fan_schedule 39 \<le> fan_schedule 70 \<and>
   4 \<le> fan_schedule 39 \<and> fan_schedule 39 \<le> 11"
proof -
  have h: "(39 :: c_int) \<le>s 70" by simp
  show ?thesis
    using h fan_schedule_bounded_monotonic [of 39 39 70] by simp
qed

subsection \<open>One tick of the control loop\<close>

lemma advance_sample_frame [simp]:
  "kernelmode (advance_sample s) = kernelmode s"
  "ctrl_cfg (advance_sample s) = ctrl_cfg s"
  "thz_dev (advance_sample s) = thz_dev s"
  "tz_mem (advance_sample s) = tz_mem s"
  "ec_log (advance_sample s) = ec_log s"
  "samples (advance_sample s) = samples s"
  "fanstate (advance_sample s) = fanstate s"
  by (simp_all add: advance_sample_def Let_def)

lemma advance_sample_cursor:
  "current_sample (advance_sample s) = next_sample (current_sample s)"
  by (simp add: advance_sample_def next_sample_def Let_def TEMPERATURE_SAMPLES_def)

lemma revert_fields:
  "kernelmode (acerhdf_revert_to_bios_mode s) = 0"
  "fanstate (acerhdf_revert_to_bios_mode s) = 5"
  "ctrl_cfg (acerhdf_revert_to_bios_mode s) = ctrl_cfg s"
  "thz_dev (acerhdf_revert_to_bios_mode s) = thz_dev s"
  "ec_log (acerhdf_revert_to_bios_mode s) = ec_log s @ [EcWrite (ctrl_settings.fanreg (ctrl_cfg s)) 5]"
  "tz_mem (acerhdf_revert_to_bios_mode s) =
     (case thz_dev s of None \<Rightarrow> tz_mem s
      | Some z \<Rightarrow> (tz_mem s)(z := (tz_mem s z)\<lparr>polling_delay := 0\<rparr>))"
  by (simp_all add: acerhdf_revert_to_bios_mode_def acerhdf_change_fanstate_def ec_write_def
      Let_def split: option.split)

lemma ec_writes_append [simp]: "ec_writes (xs @ ys) = ec_writes xs @ ec_writes ys"
  by (induction xs rule: ec_writes.induct) simp_all

lemma tick_temp_fail:
  assumes "kernelmode s \<noteq> 0" and "temp_read_fails E s"
  shows "acerhdf_set_cur_state E state s =
    (Inl EINVAL, acerhdf_revert_to_bios_mode (advance_sample
       (s\<lparr>ec_log := ec_log s @ [EcRead (ctrl_settings.tempreg (ctrl_cfg s)) None]\<rparr>)))"
  using assms
  by (simp add: acerhdf_set_cur_state_def acerhdf_get_temp_def ec_read_def Let_def temp_read_fails_def)

lemma tick_fan_fail:
  assumes "kernelmode s \<noteq> 0" and "E (ec_log s) (ctrl_settings.tempreg (ctrl_cfg s)) = Some v"
    and "E (ec_log s @ [EcRead (ctrl_settings.tempreg (ctrl_cfg s)) (Some v)])
           (ctrl_settings.fanreg (ctrl_cfg s)) = None"
  shows "acerhdf_set_cur_state E state s =
    (Inl EINVAL, acerhdf_revert_to_bios_mode
       ((advance_sample
         (s\<lparr>ec_log := ec_log s @ [EcRead (ctrl_settings.tempreg (ctrl_cfg s)) (Some v)],
            samples := (samples s)[nat (sint (current_sample s)) := ucast v]\<rparr>))
        \<lparr>ec_log := ec_log s @ [EcRead (ctrl_settings.tempreg (ctrl_cfg s)) (Some v),
             EcRead (ctrl_settings.fanreg (ctrl_cfg s)) None]\<rparr>))"
  using assms
  by (simp add: acerhdf_set_cur_state_def acerhdf_get_temp_def acerhdf_get_fanstate_def ec_read_def Let_def)

lemma tick_ok:
  assumes "kernelmode s \<noteq> 0" and "E (ec_log s) (ctrl_settings.tempreg (ctrl_cfg s)) = Some v"
    and "E (ec_log s @ [EcRead (ctrl_settings.tempreg (ctrl_cfg s)) (Some v)])
           (ctrl_settings.fanreg (ctrl_cfg s)) = Some f"
  shows "acerhdf_set_cur_state E state s =
    (Inr (), acerhdf_change_fanstate
       (ucast (fan_schedule (avg_temp ((samples s)[nat (sint (current_sample s)) := ucast v]))))
       ((advance_sample
         (s\<lparr>ec_log := ec_log s @ [EcRead (ctrl_settings.tempreg (ctrl_cfg s)) (Some v)],
            samples := (samples s)[nat (sint (current_sample s)) := ucast v]\<rparr>))
        \<lparr>ec_log := ec_log s @ [EcRead (ctrl_settings.tempreg (ctrl_cfg s)) (Some v),
             EcRead (ctrl_settings.fanreg (ctrl_cfg s)) (Some f)]\<rparr>))"
  using assms
  by (simp add: acerhdf_set_cur_state_def acerhdf_get_temp_def acerhdf_get_fanstate_def ec_read_def Let_def)

lemma failed_tick:
  assumes "kernelmode s \<noteq> 0" and "temp_read_fails E s \<or> fan_read_fails E s"
  shows "\<exists>s'. acerhdf_set_cur_state E state s = (Inl EINVAL, acerhdf_revert_to_bios_mode s') \<and>
    ctrl_cfg s' = ctrl_cfg s \<and> thz_dev s' = thz_dev s \<and> tz_mem s' = tz_mem s \<and>
    ec_writes (ec_log s') = ec_writes (ec_log s)"
proof (cases "temp_read_fails E s")
  case True
  let ?s' = "advance_sample
    (s\<lparr>ec_log := ec_log s @ [EcRead (ctrl_settings.tempreg (ctrl_cfg s)) None]\<rparr>)"
  from assms(1) True
  have "acerhdf_set_cur_state E state s = (Inl EINVAL, acerhdf_revert_to_bios_mode ?s')"
    by (rule tick_temp_fail)
  moreover have "ctrl_cfg ?s' = ctrl_cfg s \<and> thz_dev ?s' = thz_dev s \<and>
      tz_mem ?s' = tz_mem s \<and> ec_writes (ec_log ?s') = ec_writes (ec_log s)"
    by simp
  ultimately show ?thesis by blast
next
  case False
  with assms(2) have ff: "fan_read_fails E s" by simp
  then obtain v where v: "E (ec_log s) (ctrl_settings.tempreg (ctrl_cfg s)) = Some v"
    by (auto simp: fan_read_fails_def split: option.splits)
  with ff have "E (ec_log s @ [EcRead (ctrl_settings.tempreg (ctrl_cfg s)) (Some v)])
           (ctrl_settings.fanreg (ctrl_cfg s)) = None"
    by (simp add: fan_read_fails_def)
  with assms(1) v
  have "acerhdf_set_cur_state E state s = (Inl EINVAL, acerhdf_revert_to_bios_mode
       ((advance_sample
         (s\<lparr>ec_log := ec_log s @ [EcRead (ctrl_settings.tempreg (ctrl_cfg s)) (Some v)],
            samples := (samples s)[nat (sint (current_sample s)) := ucast v]\<rparr>))
        \<lparr>ec_log := ec_log s @ [EcRead (ctrl_settings.tempreg (ctrl_cfg s)) (Some v),
             EcRead (ctrl_settings.fanreg (ctrl_cfg s)) None]\<rparr>))"
    (is "_ = (_, acerhdf_revert_to_bios_mode ?s')")
    by (rule tick_fan_fail)
  moreover have "ctrl_cfg ?s' = ctrl_cfg s \<and> thz_dev ?s' = thz_dev s \<and>
      tz_mem ?s' = tz_mem s \<and> ec_writes (ec_log ?s') = ec_writes (ec_log s)"
    by simp
  ultimately show ?thesis by blast
qed


text \<open>
  \<^bold>\<open>C4.\<close> The state the governor requests has no influence on a tick: from the same
  driver state and with the same EC, two requests give the same return code and the same
  state afterwards, the log of EC accesses with the value written to the fan register
  included.
\<close>

theorem requested_state_is_ignored:
  "acerhdf_set_cur_state E state1 s = acerhdf_set_cur_state E state2 s"
  by (simp add: acerhdf_set_cur_state_def)

text \<open>
  \<^bold>\<open>C6.\<close> When the control mode is not KERNEL, a tick returns success and leaves the
  whole state as it is: the sample ring, the cursor, every other variable and the log of
  EC accesses, so that it reads and writes no EC register.
\<close>

theorem bios_mode_tick_is_noop:
  "kernelmode s = 0 \<Longrightarrow>
   acerhdf_set_cur_state E state s = (Inr (), s) \<and>
   ec_log (snd (acerhdf_set_cur_state E state s)) = ec_log s \<and>
   samples (snd (acerhdf_set_cur_state E state s)) = samples s \<and>
   current_sample (snd (acerhdf_set_cur_state E state s)) = current_sample s"
  by (simp add: acerhdf_set_cur_state_def)

theorem bios_mode_tick_is_noop_witness:
  "kernelmode (zone_running\<lparr>kernelmode := 0\<rparr>) = 0 \<and>
   acerhdf_set_cur_state ec_warm 7 (zone_running\<lparr>kernelmode := 0\<rparr>) =
     (Inr (), zone_running\<lparr>kernelmode := 0\<rparr>)"
proof -
  have h: "kernelmode (zone_running\<lparr>kernelmode := 0\<rparr>) = 0" by simp
  show ?thesis
    using h bios_mode_tick_is_noop [OF h, of ec_warm 7] by simp
qed

text \<open>
  \<^bold>\<open>C1\<close>, as stated, asks that the polling delay becomes 0 whenever a read of the EC
  fails in a tick in KERNEL mode. \<^verbatim>\<open>acerhdf_revert_to_bios_mode\<close> guards that
  assignment with \<^verbatim>\<open>if (thz_dev)\<close>. While the zone is being registered the pointer is
  still \<^verbatim>\<open>NULL\<close>: a tick whose temperature read fails then leaves the zone's polling
  delay at the 1000 milliseconds it had.
\<close>

theorem ec_failure_unset_zone_counterexample:
  "kernelmode zone_registering \<noteq> 0 \<and> temp_read_fails ec_dead zone_registering \<and>
   polling_delay (tz_mem zone_registering 0) = 1000 \<and>
   polling_delay (tz_mem (snd (acerhdf_set_cur_state ec_dead 0 zone_registering)) 0) = 1000"
proof -
  have h1: "kernelmode zone_registering \<noteq> 0"
    by (simp add: zone_registering_def module_loaded_def)
  have h2: "temp_read_fails ec_dead zone_registering"
    by (simp add: temp_read_fails_def ec_dead_def)
  have h3: "thz_dev zone_registering = None" "tz_mem zone_registering 0 = \<lparr>polling_delay = 1000\<rparr>"
    by (simp_all add: zone_registering_def module_loaded_def)
  show ?thesis
    using h1 h2 h3 by (simp add: tick_temp_fail [OF h1 h2] revert_fields)
qed


text \<open>
  \<^bold>\<open>C1\<close>, amended. If in a tick in KERNEL mode the read of the temperature or the read
  of the fan state fails, then the tick returns \<^verbatim>\<open>-EINVAL\<close>, its only write to the EC
  is the value 5 to the fan register, the mode becomes BIOS, and the polling delay of the
  zone \<^verbatim>\<open>thz_dev\<close> points to becomes 0; when \<^verbatim>\<open>thz_dev\<close> is \<^verbatim>\<open>NULL\<close> no zone is
  changed. Every later tick, on any EC and with any request, returns success and changes
  nothing.
\<close>

theorem ec_failure_reverts_to_bios:
  assumes "kernelmode s \<noteq> 0" and "temp_read_fails E s \<or> fan_read_fails E s"
  shows "fst (acerhdf_set_cur_state E state s) = Inl EINVAL \<and>
    ec_writes (ec_log (snd (acerhdf_set_cur_state E state s))) =
      ec_writes (ec_log s) @ [(ctrl_settings.fanreg (ctrl_cfg s), 5)] \<and>
    fanstate (snd (acerhdf_set_cur_state E state s)) = 5 \<and>
    kernelmode (snd (acerhdf_set_cur_state E state s)) = 0 \<and>
    (\<forall>z. thz_dev s = Some z \<longrightarrow>
       polling_delay (tz_mem (snd (acerhdf_set_cur_state E state s)) z) = 0) \<and>
    (thz_dev s = None \<longrightarrow> tz_mem (snd (acerhdf_set_cur_state E state s)) = tz_mem s) \<and>
    acerhdf_set_cur_state E' state' (snd (acerhdf_set_cur_state E state s)) =
      (Inr (), snd (acerhdf_set_cur_state E state s)) \<and>
    run_ticks E' states (snd (acerhdf_set_cur_state E state s)) =
      snd (acerhdf_set_cur_state E state s)"
proof -
  from failed_tick [OF assms, of state] obtain s' where
    r: "acerhdf_set_cur_state E state s = (Inl EINVAL, acerhdf_revert_to_bios_mode s')"
    and f: "ctrl_cfg s' = ctrl_cfg s" "thz_dev s' = thz_dev s" "tz_mem s' = tz_mem s"
      "ec_writes (ec_log s') = ec_writes (ec_log s)"
    by blast
  have noop: "acerhdf_set_cur_state E' req (acerhdf_revert_to_bios_mode s') =
      (Inr (), acerhdf_revert_to_bios_mode s')" for req
    by (simp add: acerhdf_set_cur_state_def revert_fields)
  have "run_ticks E' states (acerhdf_revert_to_bios_mode s') = acerhdf_revert_to_bios_mode s'"
    by (induction states) (simp_all add: noop)
  with r f noop show ?thesis
    by (simp add: revert_fields)
qed

theorem ec_failure_reverts_to_bios_witness:
  "kernelmode zone_running \<noteq> 0 \<and> temp_read_fails ec_dead zone_running \<and>
   fst (acerhdf_set_cur_state ec_dead 0 zone_running) = Inl EINVAL \<and>
   kernelmode (snd (acerhdf_set_cur_state ec_dead 0 zone_running)) = 0 \<and>
   polling_delay (tz_mem (snd (acerhdf_set_cur_state ec_dead 0 zone_running)) 0) = 0"
proof -
  have h1: "kernelmode zone_running \<noteq> 0"
    by (simp add: zone_running_def zone_registering_def module_loaded_def)
  have h2: "temp_read_fails ec_dead zone_running \<or> fan_read_fails ec_dead zone_running"
    by (simp add: temp_read_fails_def ec_dead_def)
  have h3: "thz_dev zone_running = Some 0"
    by (simp add: zone_running_def)
  show ?thesis
    using h1 h3 ec_failure_reverts_to_bios [OF h1 h2, of 0]
    by (simp add: temp_read_fails_def ec_dead_def)
qed



subsection \<open>Trip points\<close>

text \<open>
  \<^bold>\<open>C8.\<close> \<^verbatim>\<open>get_trip_temp\<close> returns \<^verbatim>\<open>fanon\<close> for trip 0, 89 for trip 1 and an
  error for any other index; \<^verbatim>\<open>get_trip_hyst\<close> returns \<^verbatim>\<open>fanon - fanoff\<close> (the
  difference of the two 32-bit values) for trip 0 and an error for any other index;
  \<^verbatim>\<open>get_trip_type\<close> maps 0 to ACTIVE, 1 to CRITICAL and any other index to an error;
  \<^verbatim>\<open>get_crit_temp\<close> returns 89.
\<close>

theorem trip_point_accessors:
  "acerhdf_get_trip_temp s 0 = Inr (fanon s) \<and>
   acerhdf_get_trip_temp s 1 = Inr 89 \<and>
   (trip \<noteq> 0 \<and> trip \<noteq> 1 \<longrightarrow> acerhdf_get_trip_temp s trip = Inl EINVAL) \<and>
   acerhdf_get_trip_hyst s 0 = Inr (fanon s - fanoff s) \<and>
   (trip \<noteq> 0 \<longrightarrow> acerhdf_get_trip_hyst s trip = Inl EINVAL) \<and>
   acerhdf_get_trip_type 0 = Inr THERMAL_TRIP_ACTIVE \<and>
   acerhdf_get_trip_type 1 = Inr THERMAL_TRIP_CRITICAL \<and>
   (trip \<noteq> 0 \<and> trip \<noteq> 1 \<longrightarrow> acerhdf_get_trip_type trip = Inl EINVAL) \<and>
   acerhdf_get_crit_temp = Inr 89"
  by (simp add: acerhdf_get_trip_temp_def acerhdf_get_trip_hyst_def acerhdf_get_trip_type_def
      acerhdf_get_crit_temp_def ACERHDF_TEMP_CRIT_def)

theorem trip_point_accessors_witness:
  "(2 :: c_int) \<noteq> 0 \<and> (2 :: c_int) \<noteq> 1 \<and>
   acerhdf_get_trip_temp (module_loaded\<lparr>fanon := 60, fanoff := 40\<rparr>) 2 = Inl EINVAL \<and>
   acerhdf_get_trip_hyst (module_loaded\<lparr>fanon := 60, fanoff := 40\<rparr>) 2 = Inl EINVAL \<and>
   acerhdf_get_trip_type 2 = Inl EINVAL \<and>
   acerhdf_get_trip_temp (module_loaded\<lparr>fanon := 60, fanoff := 40\<rparr>) 0 = Inr 60 \<and>
   acerhdf_get_trip_hyst (module_loaded\<lparr>fanon := 60, fanoff := 40\<rparr>) 0 = Inr 20"
proof -
  have h: "(2 :: c_int) \<noteq> 0 \<and> (2 :: c_int) \<noteq> 1" by simp
  show ?thesis
    using h trip_point_accessors [of "module_loaded\<lparr>fanon := 60, fanoff := 40\<rparr>" 2]
    by simp
qed


text \<open>
  \<^bold>\<open>C10.\<close> \<^verbatim>\<open>get_trip_hyst\<close> subtracts in unsigned 32-bit arithmetic and stores the
  result in a signed \<^verbatim>\<open>int\<close>: the value is the difference modulo \<open>2 ^ 32\<close>, which is
  the difference plus \<open>2 ^ 32\<close> whenever \<^verbatim>\<open>fanoff\<close> exceeds \<^verbatim>\<open>fanon\<close>. With the
  defaults 30 and 53000 the call succeeds and the value read as a signed number is
  -52970.
\<close>

theorem trip_hyst_wraps:
  "acerhdf_get_trip_hyst s 0 = Inr (fanon s - fanoff s) \<and>
   uint (fanon s - fanoff s) = (uint (fanon s) - uint (fanoff s)) mod 2 ^ 32 \<and>
   (fanon s < fanoff s \<longrightarrow>
      uint (fanon s - fanoff s) = uint (fanon s) - uint (fanoff s) + 2 ^ 32) \<and>
   (fanon s = 30 \<and> fanoff s = 53000 \<longrightarrow>
      map_sum id sint (acerhdf_get_trip_hyst s 0) = Inr (- 52970))"
proof -
  have "uint (fanon s - fanoff s) = (uint (fanon s) - uint (fanoff s)) mod 2 ^ 32"
    by (simp add: uint_word_ariths)
  moreover have "uint (fanon s - fanoff s) = uint (fanon s) - uint (fanoff s) + 2 ^ 32"
    if "fanon s < fanoff s"
    using that by (simp add: uint_sub_if' word_less_def)
  moreover have "map_sum id sint (acerhdf_get_trip_hyst s 0) = Inr (- 52970)"
    if "fanon s = 30 \<and> fanoff s = 53000"
    using that by (simp add: acerhdf_get_trip_hyst_def)
  moreover have "acerhdf_get_trip_hyst s 0 = Inr (fanon s - fanoff s)"
    by (simp add: acerhdf_get_trip_hyst_def)
  ultimately show ?thesis by blast
qed

theorem trip_hyst_wraps_witness:
  "fanon module_loaded = 30 \<and> fanoff module_loaded = 53000 \<and>
   fanon module_loaded < fanoff module_loaded \<and>
   map_sum id sint (acerhdf_get_trip_hyst module_loaded 0) = Inr (- 52970) \<and>
   uint (fanon module_loaded - fanoff module_loaded) = 30 - 53000 + 2 ^ 32"
proof -
  have h: "fanon module_loaded = 30 \<and> fanoff module_loaded = 53000"
    by (simp add: module_loaded_def)
  then have h2: "fanon module_loaded < fanoff module_loaded" by simp
  show ?thesis
    using h h2 trip_hyst_wraps [of module_loaded] by simp
qed


subsection \<open>Parameter clamping\<close>

lemma sint_times_1000:
  assumes "(i :: c_uint) \<le> 15"
  shows "sint (i * 1000) = uint i * 1000"
proof -
  from assms have b: "uint i * 1000 < 2 ^ 31" by (simp add: word_le_def)
  have c: "- (2 ^ 31) \<le> uint i * 1000"
    by (rule order_trans [of _ 0]) simp_all
  have "i * 1000 = word_of_int (uint i * 1000)" by simp
  then have "sint (i * 1000) = signed_take_bit 31 (uint i * 1000)"
    by (simp only: sint_sbintrunc') simp
  also have "\<dots> = uint i * 1000"
    using c b by (rule signed_take_bit_int_eq_self)
  finally show ?thesis .
qed

lemma check_param_fanon: "fanon (acerhdf_check_param thermal s) \<le> 80000"
  by (simp add: acerhdf_check_param_def Let_def ACERHDF_MAX_FANON_def not_less)

lemma check_param_interval:
  assumes "kernelmode s \<noteq> 0" and "prev_interval s \<noteq> interval s"
  shows "interval (acerhdf_check_param thermal s) = (if 15 < interval s then 15 else interval s)"
    and "polling_delay (tz_mem (acerhdf_check_param thermal s) thermal) =
       interval (acerhdf_check_param thermal s) * 1000"
    and "prev_interval (acerhdf_check_param thermal s) = interval (acerhdf_check_param thermal s)"
  using assms
  by (auto simp: acerhdf_check_param_def Let_def ACERHDF_MAX_FANON_def ACERHDF_MAX_INTERVAL_def)

lemma get_temp_frame:
  "fanon (snd (acerhdf_get_temp E s)) = fanon s"
  "interval (snd (acerhdf_get_temp E s)) = interval s"
  "tz_mem (snd (acerhdf_get_temp E s)) = tz_mem s"
  by (simp_all add: acerhdf_get_temp_def ec_read_def Let_def split: option.split)


text \<open>
  \<^bold>\<open>C9.\<close> After the parameter check, and so after every \<^verbatim>\<open>get_temp\<close> poll, which
  runs it first, \<^verbatim>\<open>fanon\<close> is at most 80000. When the mode is KERNEL and
  \<^verbatim>\<open>interval\<close> differs from \<^verbatim>\<open>prev_interval\<close>, \<^verbatim>\<open>interval\<close> is at most 15
  afterwards and the polling delay of the zone polled is \<^verbatim>\<open>interval\<close> times 1000.
\<close>

theorem check_param_clamps:
  "fanon (acerhdf_check_param thermal s) \<le> 80000 \<and>
   fanon (snd (acerhdf_get_ec_temp E thermal s)) \<le> 80000 \<and>
   (kernelmode s \<noteq> 0 \<and> prev_interval s \<noteq> interval s \<longrightarrow>
      interval (acerhdf_check_param thermal s) \<le> 15 \<and>
      polling_delay (tz_mem (acerhdf_check_param thermal s) thermal) =
        interval (acerhdf_check_param thermal s) * 1000 \<and>
      sint (polling_delay (tz_mem (acerhdf_check_param thermal s) thermal)) =
        uint (interval (acerhdf_check_param thermal s)) * 1000 \<and>
      interval (snd (acerhdf_get_ec_temp E thermal s)) \<le> 15 \<and>
      sint (polling_delay (tz_mem (snd (acerhdf_get_ec_temp E thermal s)) thermal)) =
        uint (interval (snd (acerhdf_get_ec_temp E thermal s))) * 1000)"
proof -
  have le: "interval (acerhdf_check_param thermal s) \<le> 15"
    if "kernelmode s \<noteq> 0" and "prev_interval s \<noteq> interval s"
    using check_param_interval(1) [OF that, of thermal] by (simp add: not_less)
  show ?thesis
    by (simp add: check_param_fanon acerhdf_get_ec_temp_def get_temp_frame le
        check_param_interval(2) sint_times_1000)
qed

theorem check_param_clamps_witness:
  "kernelmode (zone_running\<lparr>interval := 60, fanon := 90000\<rparr>) \<noteq> 0 \<and>
   prev_interval (zone_running\<lparr>interval := 60, fanon := 90000\<rparr>) \<noteq>
     interval (zone_running\<lparr>interval := 60, fanon := 90000\<rparr>) \<and>
   fanon (acerhdf_check_param 0 (zone_running\<lparr>interval := 60, fanon := 90000\<rparr>)) \<le> 80000 \<and>
   interval (acerhdf_check_param 0 (zone_running\<lparr>interval := 60, fanon := 90000\<rparr>)) \<le> 15 \<and>
   sint (polling_delay (tz_mem (acerhdf_check_param 0
      (zone_running\<lparr>interval := 60, fanon := 90000\<rparr>)) 0)) =
     uint (interval (acerhdf_check_param 0 (zone_running\<lparr>interval := 60, fanon := 90000\<rparr>))) * 1000"
proof -
  have h: "kernelmode (zone_running\<lparr>interval := 60, fanon := 90000\<rparr>) \<noteq> 0 \<and>
      prev_interval (zone_running\<lparr>interval := 60, fanon := 90000\<rparr>) \<noteq>
      interval (zone_running\<lparr>interval := 60, fanon := 90000\<rparr>)"
    by (simp add: zone_running_def zone_registering_def module_loaded_def)
  show ?thesis
    using h check_param_clamps [of 0 "zone_running\<lparr>interval := 60, fanon := 90000\<rparr>" ec_warm]
    by blast
qed



subsection \<open>Cold start\<close>

lemma change_fanstate_fields:
  "kernelmode (acerhdf_change_fanstate v s) = kernelmode s"
  "ctrl_cfg (acerhdf_change_fanstate v s) = ctrl_cfg s"
  "samples (acerhdf_change_fanstate v s) = samples s"
  "current_sample (acerhdf_change_fanstate v s) = current_sample s"
  "fanstate (acerhdf_change_fanstate v s) = v"
  "ec_log (acerhdf_change_fanstate v s) =
     ec_log s @ [EcWrite (ctrl_settings.fanreg (ctrl_cfg s)) (ucast v)]"
  by (simp_all add: acerhdf_change_fanstate_def ec_write_def)

lemma good_tick:
  assumes "kernelmode s \<noteq> 0"
    and "E (ec_log s) (ctrl_settings.tempreg (ctrl_cfg s)) = Some v"
    and "E (ec_log s @ [EcRead (ctrl_settings.tempreg (ctrl_cfg s)) (Some v)])
           (ctrl_settings.fanreg (ctrl_cfg s)) \<noteq> None"
  shows "fst (acerhdf_set_cur_state E state s) = Inr ()"
    and "kernelmode (snd (acerhdf_set_cur_state E state s)) = kernelmode s"
    and "ctrl_cfg (snd (acerhdf_set_cur_state E state s)) = ctrl_cfg s"
    and "(samples (snd (acerhdf_set_cur_state E state s)),
          current_sample (snd (acerhdf_set_cur_state E state s))) =
         store_sample (ucast v) (samples s, current_sample s)"
    and "fanstate (snd (acerhdf_set_cur_state E state s)) =
         ucast (fan_schedule (avg_temp (samples (snd (acerhdf_set_cur_state E state s)))))"
    and "ec_writes (ec_log (snd (acerhdf_set_cur_state E state s))) =
         ec_writes (ec_log s) @ [(ctrl_settings.fanreg (ctrl_cfg s),
           ucast (fanstate (snd (acerhdf_set_cur_state E state s))))]"
proof -
  from assms(3) obtain f where
    "E (ec_log s @ [EcRead (ctrl_settings.tempreg (ctrl_cfg s)) (Some v)])
           (ctrl_settings.fanreg (ctrl_cfg s)) = Some f"
    by blast
  note eq = tick_ok [OF assms(1,2) this, of state]
  show "fst (acerhdf_set_cur_state E state s) = Inr ()"
    by (simp add: eq)
  show "kernelmode (snd (acerhdf_set_cur_state E state s)) = kernelmode s"
    by (simp add: eq change_fanstate_fields)
  show "ctrl_cfg (snd (acerhdf_set_cur_state E state s)) = ctrl_cfg s"
    by (simp add: eq change_fanstate_fields)
  show "(samples (snd (acerhdf_set_cur_state E state s)),
          current_sample (snd (acerhdf_set_cur_state E state s))) =
         store_sample (ucast v) (samples s, current_sample s)"
    by (simp add: eq change_fanstate_fields store_sample_def advance_sample_cursor
        advance_sample_def [where s = "s\<lparr>ec_log := _, samples := _\<rparr>"] Let_def
        TEMPERATURE_SAMPLES_def next_sample_def)
  show "fanstate (snd (acerhdf_set_cur_state E state s)) =
         ucast (fan_schedule (avg_temp (samples (snd (acerhdf_set_cur_state E state s)))))"
    by (simp add: eq change_fanstate_fields)
  show "ec_writes (ec_log (snd (acerhdf_set_cur_state E state s))) =
         ec_writes (ec_log s) @ [(ctrl_settings.fanreg (ctrl_cfg s),
           ucast (fanstate (snd (acerhdf_set_cur_state E state s))))]"
    by (simp add: eq change_fanstate_fields)
qed

lemma run_ticks_snoc:
  "run_ticks E (states @ [state]) s = snd (acerhdf_set_cur_state E state (run_ticks E states s))"
  by (induction states arbitrary: s) simp_all

lemma good_run:
  assumes "kernelmode s \<noteq> 0"
    and "\<And>log. E log (ctrl_settings.tempreg (ctrl_cfg s)) = Some v"
    and "\<And>log. E log (ctrl_settings.fanreg (ctrl_cfg s)) \<noteq> None"
  shows "kernelmode (run_ticks E states s) = kernelmode s \<and>
    ctrl_cfg (run_ticks E states s) = ctrl_cfg s \<and>
    (samples (run_ticks E states s), current_sample (run_ticks E states s)) =
      (store_sample (ucast v) ^^ length states) (samples s, current_sample s)"
proof (induction states rule: rev_induct)
  case Nil
  show ?case by simp
next
  case (snoc state states)
  let ?s = "run_ticks E states s"
  from snoc have k: "kernelmode ?s \<noteq> 0" and c: "ctrl_cfg ?s = ctrl_cfg s"
    using assms(1) by simp_all
  have t: "E (ec_log ?s) (ctrl_settings.tempreg (ctrl_cfg ?s)) = Some v"
    by (simp add: c assms(2))
  have f: "E (ec_log ?s @ [EcRead (ctrl_settings.tempreg (ctrl_cfg ?s)) (Some v)])
           (ctrl_settings.fanreg (ctrl_cfg ?s)) \<noteq> None"
    by (simp add: c assms(3))
  from snoc good_tick(2,3,4) [OF k t f, of state] show ?case
    by (simp add: run_ticks_snoc)
qed

lemma cursor_cases:
  assumes "0 \<le>s (c :: c_int)" and "c \<le>s 9"
  shows "c \<in> {0, 1, 2, 3, 4, 5, 6, 7, 8, 9}"
proof -
  from assms have "0 \<le> sint c" and "sint c \<le> 9"
    by (simp_all add: word_sle_eq)
  then have "sint c = 0 \<or> sint c = 1 \<or> sint c = 2 \<or> sint c = 3 \<or> sint c = 4 \<or>
      sint c = 5 \<or> sint c = 6 \<or> sint c = 7 \<or> sint c = 8 \<or> sint c = 9"
    by arith
  moreover have "c = word_of_int (sint c)" by simp
  ultimately have "c = word_of_int 0 \<or> c = word_of_int 1 \<or> c = word_of_int 2 \<or>
      c = word_of_int 3 \<or> c = word_of_int 4 \<or> c = word_of_int 5 \<or> c = word_of_int 6 \<or>
      c = word_of_int 7 \<or> c = word_of_int 8 \<or> c = word_of_int 9"
    by metis
  then show ?thesis by simp
qed

lemma next_sample_simps:
  "next_sample 0 = 1" "next_sample 1 = 2" "next_sample 2 = 3" "next_sample 3 = 4"
  "next_sample 4 = 5" "next_sample 5 = 6" "next_sample 6 = 7" "next_sample 7 = 8"
  "next_sample 8 = 9" "next_sample 9 = 0"
  by (simp_all add: next_sample_def word_sless_alt)

lemma cold_ring_first:
  assumes "c \<in> {0, 1, 2, 3, 4, 5, 6, 7, 8, 9}"
  shows "avg_temp (fst (store_sample 70 (replicate 10 0, c))) = 7"
  using assms
  by (auto simp: store_sample_def avg_temp_def TEMPERATURE_SAMPLES_def eval_nat_numeral)

lemma cold_ring_tenth:
  assumes "c \<in> {0, 1, 2, 3, 4, 5, 6, 7, 8, 9}"
  shows "fst ((store_sample 70 ^^ 10) (replicate 10 0, c)) = replicate 10 70"
  using assms
  by (auto simp: store_sample_def next_sample_simps eval_nat_numeral)

lemma avg_temp_full: "avg_temp (replicate 10 70) = 70"
  by (simp add: avg_temp_def TEMPERATURE_SAMPLES_def eval_nat_numeral)

lemma schedule_values:
  "(ucast (ucast (fan_schedule 7) :: c_int) :: u8) = 4"
  "(ucast (ucast (fan_schedule 70) :: c_int) :: u8) = 11"
  by (simp_all add: fan_schedule_def MIN_FAN_SPEED_def Let_def)


text \<open>
  \<^bold>\<open>C5\<close>, as stated, asks for the write of 4 whenever the ring holds ten zeros and
  every read of the temperature returns 70. The tick reads the fan register before it
  writes, and a failure of that read sends it to the fallback: on a zero-filled ring in
  KERNEL mode, with the temperature read returning 70 and the fan read failing, the first
  tick stores the sample, returns \<^verbatim>\<open>-EINVAL\<close> and writes 5, not 4.
\<close>

theorem cold_start_fan_read_counterexample:
  "kernelmode zone_running \<noteq> 0 \<and>
   samples zone_running = replicate 10 0 \<and>
   ec_fan_dead (ec_log zone_running) (ctrl_settings.tempreg (ctrl_cfg zone_running)) = Some 70 \<and>
   fst (acerhdf_set_cur_state ec_fan_dead 0 zone_running) = Inl EINVAL \<and>
   avg_temp (samples (snd (acerhdf_set_cur_state ec_fan_dead 0 zone_running))) = 7 \<and>
   ec_writes (ec_log (snd (acerhdf_set_cur_state ec_fan_dead 0 zone_running))) = [(0x4f, 5)]"
proof -
  have regs: "ctrl_settings.tempreg (ctrl_cfg zone_running) = 0x58"
    "ctrl_settings.fanreg (ctrl_cfg zone_running) = 0x4f"
    by (simp_all add: zone_running_def zone_registering_def module_loaded_def bios_tbl_def
        copy_ctrl_settings_def)
  have st: "kernelmode zone_running \<noteq> 0" "samples zone_running = replicate 10 0"
    "current_sample zone_running = 0" "ec_log zone_running = []"
    by (simp_all add: zone_running_def zone_registering_def module_loaded_def)
  have t: "ec_fan_dead (ec_log zone_running) (ctrl_settings.tempreg (ctrl_cfg zone_running)) =
      Some 70"
    by (simp add: regs ec_fan_dead_def)
  have f: "ec_fan_dead
      (ec_log zone_running @ [EcRead (ctrl_settings.tempreg (ctrl_cfg zone_running)) (Some 70)])
      (ctrl_settings.fanreg (ctrl_cfg zone_running)) = None"
    by (simp add: regs ec_fan_dead_def)
  note eq = tick_fan_fail [OF st(1) t f, of 0]
  have avg: "avg_temp ((replicate 10 0)[0 := 70]) = 7"
    by (simp add: avg_temp_def TEMPERATURE_SAMPLES_def eval_nat_numeral)
  have smp: "samples (snd (acerhdf_set_cur_state ec_fan_dead 0 zone_running)) =
      (replicate 10 0)[0 := 70]"
    by (simp add: eq acerhdf_revert_to_bios_mode_def acerhdf_change_fanstate_def ec_write_def
        Let_def st split: option.split)
  have wr: "ec_writes (ec_log (snd (acerhdf_set_cur_state ec_fan_dead 0 zone_running))) =
      [(0x4f, 5)]"
    by (simp add: eq revert_fields regs st)
  have rc: "fst (acerhdf_set_cur_state ec_fan_dead 0 zone_running) = Inl EINVAL"
    by (simp add: eq)
  have av: "avg_temp (samples (snd (acerhdf_set_cur_state ec_fan_dead 0 zone_running))) = 7"
    by (simp only: smp avg)
  from st(1,2) t rc av wr show ?thesis
    by blast
qed

text \<open>
  \<^bold>\<open>C5\<close>, amended. Let the ring hold ten zeros, with the cursor anywhere in it, let
  every read of the temperature register return 70 and let no read of the fan register
  fail. Then the first tick in KERNEL mode succeeds, computes the smoothed temperature 7
  and writes the fan state 4, which is the maximum of 3 and 4. The tenth tick succeeds on
  a ring of ten times 70, computes the smoothed temperature 70 and writes the fan state
  11.
\<close>

theorem cold_start:
  assumes "kernelmode s \<noteq> 0"
    and "samples s = replicate 10 0"
    and "0 \<le>s current_sample s" and "current_sample s \<le>s 9"
    and "\<And>log. E log (ctrl_settings.tempreg (ctrl_cfg s)) = Some 70"
    and "\<And>log. E log (ctrl_settings.fanreg (ctrl_cfg s)) \<noteq> None"
    and "length states = 9"
  shows "fst (acerhdf_set_cur_state E state s) = Inr () \<and>
    avg_temp (samples (snd (acerhdf_set_cur_state E state s))) = 7 \<and>
    fan_schedule 7 = max 3 4 \<and>
    ec_writes (ec_log (snd (acerhdf_set_cur_state E state s))) =
      ec_writes (ec_log s) @ [(ctrl_settings.fanreg (ctrl_cfg s), 4)] \<and>
    kernelmode (run_ticks E states s) = kernelmode s \<and>
    fst (acerhdf_set_cur_state E state (run_ticks E states s)) = Inr () \<and>
    samples (snd (acerhdf_set_cur_state E state (run_ticks E states s))) = replicate 10 70 \<and>
    avg_temp (samples (snd (acerhdf_set_cur_state E state (run_ticks E states s)))) = 70 \<and>
    ec_writes (ec_log (snd (acerhdf_set_cur_state E state (run_ticks E states s)))) =
      ec_writes (ec_log (run_ticks E states s)) @ [(ctrl_settings.fanreg (ctrl_cfg s), 11)]"
proof -
  have c: "current_sample s \<in> {0, 1, 2, 3, 4, 5, 6, 7, 8, 9}"
    using assms(3,4) by (rule cursor_cases)
  have t: "E (ec_log s) (ctrl_settings.tempreg (ctrl_cfg s)) = Some 70"
    by (rule assms(5))
  have f: "E (ec_log s @ [EcRead (ctrl_settings.tempreg (ctrl_cfg s)) (Some 70)])
      (ctrl_settings.fanreg (ctrl_cfg s)) \<noteq> None"
    by (rule assms(6))
  note first = good_tick [OF assms(1) t f, of state]
  have s1: "samples (snd (acerhdf_set_cur_state E state s)) =
      fst (store_sample 70 (replicate 10 0, current_sample s))"
    using first(4) by (simp add: assms(2) prod_eq_iff)
  have a1: "avg_temp (samples (snd (acerhdf_set_cur_state E state s))) = 7"
    by (simp only: s1 cold_ring_first [OF c])
  have w1: "ec_writes (ec_log (snd (acerhdf_set_cur_state E state s))) =
      ec_writes (ec_log s) @ [(ctrl_settings.fanreg (ctrl_cfg s), 4)]"
    by (simp only: first(6) first(5) a1 schedule_values)
  let ?s9 = "run_ticks E states s"
  note run = good_run [where E = E and s = s and v = 70 and states = states, OF assms(1) assms(5) assms(6)]
  from run assms(1) have k9: "kernelmode ?s9 \<noteq> 0" and c9: "ctrl_cfg ?s9 = ctrl_cfg s"
    by simp_all
  have t9: "E (ec_log ?s9) (ctrl_settings.tempreg (ctrl_cfg ?s9)) = Some 70"
    by (simp add: c9 assms(5))
  have f9: "E (ec_log ?s9 @ [EcRead (ctrl_settings.tempreg (ctrl_cfg ?s9)) (Some 70)])
      (ctrl_settings.fanreg (ctrl_cfg ?s9)) \<noteq> None"
    by (simp add: c9 assms(6))
  note tenth = good_tick [OF k9 t9 f9, of state]
  have ten: "store_sample 70 ((store_sample 70 ^^ 9) r) = (store_sample 70 ^^ 10) r" for r
  proof -
    have "(10 :: nat) = Suc 9" by simp
    then show ?thesis by (simp only: funpow.simps o_apply)
  qed
  have "(samples (snd (acerhdf_set_cur_state E state ?s9)),
         current_sample (snd (acerhdf_set_cur_state E state ?s9))) =
      (store_sample 70 ^^ 10) (replicate 10 0, current_sample s)"
    using tenth(4) run by (simp add: assms(2,7) ten)
  then have s10: "samples (snd (acerhdf_set_cur_state E state ?s9)) = replicate 10 70"
    using cold_ring_tenth [OF c] by (simp add: prod_eq_iff)
  have a10: "avg_temp (samples (snd (acerhdf_set_cur_state E state ?s9))) = 70"
    by (simp only: s10 avg_temp_full)
  have w10: "ec_writes (ec_log (snd (acerhdf_set_cur_state E state ?s9))) =
      ec_writes (ec_log ?s9) @ [(ctrl_settings.fanreg (ctrl_cfg s), 11)]"
    by (simp only: tenth(6) tenth(5) a10 schedule_values c9)
  have sch: "fan_schedule 7 = max 3 4"
    by (simp add: fan_schedule_def MIN_FAN_SPEED_def Let_def)
  from first(1) a1 w1 run tenth(1) s10 a10 w10 sch show ?thesis
    by blast
qed

theorem cold_start_witness:
  "kernelmode zone_running \<noteq> 0 \<and> samples zone_running = replicate 10 0 \<and>
   0 \<le>s current_sample zone_running \<and> current_sample zone_running \<le>s 9 \<and>
   length (replicate 9 (0 :: c_ulong)) = 9 \<and>
   ec_warm [] (ctrl_settings.tempreg (ctrl_cfg zone_running)) = Some 70 \<and>
   avg_temp (samples (snd (acerhdf_set_cur_state ec_warm 0 zone_running))) = 7 \<and>
   ec_writes (ec_log (snd (acerhdf_set_cur_state ec_warm 0 zone_running))) = [(0x4f, 4)] \<and>
   avg_temp (samples (snd (acerhdf_set_cur_state ec_warm 0
     (run_ticks ec_warm (replicate 9 0) zone_running)))) = 70 \<and>
   ec_writes (ec_log (snd (acerhdf_set_cur_state ec_warm 0
     (run_ticks ec_warm (replicate 9 0) zone_running)))) =
     ec_writes (ec_log (run_ticks ec_warm (replicate 9 0) zone_running)) @ [(0x4f, 11)]"
proof -
  have h1: "kernelmode zone_running \<noteq> 0"
    and h2: "samples zone_running = replicate 10 0"
    and h3: "0 \<le>s current_sample zone_running"
    and h4: "current_sample zone_running \<le>s 9"
    by (simp_all add: zone_running_def zone_registering_def module_loaded_def word_sle_eq)
  have h5: "ec_warm log (ctrl_settings.tempreg (ctrl_cfg zone_running)) = Some 70" for log
    by (simp add: ec_warm_def)
  have h6: "ec_warm log (ctrl_settings.fanreg (ctrl_cfg zone_running)) \<noteq> None" for log
    by (simp add: ec_warm_def)
  have h7: "length (replicate 9 (0 :: c_ulong)) = 9" by simp
  have r: "ctrl_settings.fanreg (ctrl_cfg zone_running) = 0x4f" "ec_log zone_running = []"
    by (simp_all add: zone_running_def zone_registering_def module_loaded_def bios_tbl_def
        copy_ctrl_settings_def)
  from cold_start [where s = zone_running and E = ec_warm and states = "replicate 9 0"
      and state = 0, OF h1 h2 h3 h4 h5 h6 h7] h1 h2 h3 h4 h5 [of "[]"] h7 r
  show ?thesis by (simp add: avg_temp_full)
qed


subsection \<open>Identity matching\<close>

lemma strncmp_take:
  "length start \<le> length str \<Longrightarrow>
   strncmp str start (length start) = 0 \<longleftrightarrow> take (length start) str = start"
proof (induction start arbitrary: str)
  case Nil
  then show ?case by simp
next
  case (Cons b start)
  then obtain a str' where "str = a # str'" by (cases str) auto
  with Cons show ?case by auto
qed

lemma str_starts_with_prefix:
  "str_starts_with observed row \<longleftrightarrow> spec_is_prefix row observed"
  by (auto simp: str_starts_with_def spec_is_prefix_def strncmp_take Let_def)

lemma bios_tbl_search_find:
  "bios_tbl_search tbl sys_vendor sys_product sys_version =
   find (row_matches sys_vendor sys_product sys_version) (rows_before_sentinel tbl)"
  by (induction tbl) (simp_all add: rows_before_sentinel_def row_matches_def str_starts_with_prefix)

lemma check_hardware_search:
  assumes "DMI_SYS_VENDOR dmi = Some sys_vendor"
    and "DMI_BIOS_VERSION dmi = Some bios_version"
    and "DMI_PRODUCT_NAME dmi = Some product_name"
    and "list_supported s = 0"
  shows "fst (acerhdf_check_hardware tbl dmi s) =
      (case bios_tbl_search tbl sys_vendor (observed_product s product_name)
              (observed_version s bios_version) of
         None \<Rightarrow> Inl EINVAL | Some bt \<Rightarrow> Inr ())"
    and "bios_tbl_search tbl sys_vendor (observed_product s product_name)
              (observed_version s bios_version) = Some bt \<Longrightarrow>
         ctrl_cfg (snd (acerhdf_check_hardware tbl dmi s)) = copy_ctrl_settings bt"
proof -
  show "fst (acerhdf_check_hardware tbl dmi s) =
      (case bios_tbl_search tbl sys_vendor (observed_product s product_name)
              (observed_version s bios_version) of
         None \<Rightarrow> Inl EINVAL | Some bt \<Rightarrow> Inr ())"
    using assms
    by (cases "force_bios s = []"; cases "force_product s = []")
      (simp_all add: acerhdf_check_hardware_def observed_product_def observed_version_def
        Let_def split: option.split)
  show "ctrl_cfg (snd (acerhdf_check_hardware tbl dmi s)) = copy_ctrl_settings bt"
    if "bios_tbl_search tbl sys_vendor (observed_product s product_name)
              (observed_version s bios_version) = Some bt"
    using assms that
    by (cases "force_bios s = []"; cases "force_product s = []")
      (simp_all add: acerhdf_check_hardware_def observed_product_def observed_version_def
        Let_def)
qed


text \<open>
  \<^bold>\<open>C7.\<close> \<^verbatim>\<open>str_starts_with\<close> holds exactly when the observed string is at least as
  long as the row's string and starts with it, so the empty string matches anything.
  When the three identity strings are present and the table is not just listed, the
  hardware check succeeds with the settings of the first row, in the table's order and
  in front of the row with the empty vendor, whose three strings the observed ones start
  with. When no such row matches, the check and with it \<^verbatim>\<open>acerhdf_init\<close> return
  \<^verbatim>\<open>-EINVAL\<close>.
\<close>

theorem identity_match:
  assumes "DMI_SYS_VENDOR dmi = Some sys_vendor"
    and "DMI_BIOS_VERSION dmi = Some bios_version"
    and "DMI_PRODUCT_NAME dmi = Some product_name"
    and "list_supported s = 0"
  shows "(str_starts_with observed row \<longleftrightarrow>
        length observed \<ge> length row \<and> take (length row) observed = row) \<and>
    str_starts_with observed [] \<and>
    (i < length (rows_before_sentinel tbl) \<and>
     row_matches sys_vendor (observed_product s product_name) (observed_version s bios_version)
       (rows_before_sentinel tbl ! i) \<and>
     (\<forall>j<i. \<not> row_matches sys_vendor (observed_product s product_name)
       (observed_version s bios_version) (rows_before_sentinel tbl ! j)) \<longrightarrow>
       fst (acerhdf_check_hardware tbl dmi s) = Inr () \<and>
       ctrl_cfg (snd (acerhdf_check_hardware tbl dmi s)) =
         copy_ctrl_settings (rows_before_sentinel tbl ! i)) \<and>
    ((\<forall>bt \<in> set (rows_before_sentinel tbl).
       \<not> row_matches sys_vendor (observed_product s product_name)
         (observed_version s bios_version) bt) \<longrightarrow>
       fst (acerhdf_check_hardware tbl dmi s) = Inl EINVAL \<and>
       fst (acerhdf_init tbl dmi register s) = Inl EINVAL)"
proof -
  let ?P = "row_matches sys_vendor (observed_product s product_name)
    (observed_version s bios_version)"
  let ?rows = "rows_before_sentinel tbl"
  note hw = check_hardware_search [OF assms, of tbl]
  have a: "str_starts_with observed row \<longleftrightarrow>
      length observed \<ge> length row \<and> take (length row) observed = row"
    by (simp add: str_starts_with_prefix spec_is_prefix_def)
  have b: "str_starts_with observed []"
    by (simp add: str_starts_with_def)
  have c: "fst (acerhdf_check_hardware tbl dmi s) = Inr () \<and>
      ctrl_cfg (snd (acerhdf_check_hardware tbl dmi s)) = copy_ctrl_settings (?rows ! i)"
    if "i < length ?rows" and "?P (?rows ! i)" and "\<forall>j<i. \<not> ?P (?rows ! j)"
  proof -
    from that have "find ?P ?rows = Some (?rows ! i)"
      by (auto simp: find_Some_iff)
    then have "bios_tbl_search tbl sys_vendor (observed_product s product_name)
        (observed_version s bios_version) = Some (?rows ! i)"
      by (simp add: bios_tbl_search_find)
    with hw show ?thesis by simp
  qed
  have d: "fst (acerhdf_check_hardware tbl dmi s) = Inl EINVAL \<and>
      fst (acerhdf_init tbl dmi register s) = Inl EINVAL"
    if "\<forall>bt \<in> set ?rows. \<not> ?P bt"
  proof -
    from that have "find ?P ?rows = None"
      by (simp add: find_None_iff)
    then have "bios_tbl_search tbl sys_vendor (observed_product s product_name)
        (observed_version s bios_version) = None"
      by (simp add: bios_tbl_search_find)
    with hw(1) have e: "fst (acerhdf_check_hardware tbl dmi s) = Inl EINVAL" by simp
    then show ?thesis
      by (cases "acerhdf_check_hardware tbl dmi s") (simp add: acerhdf_init_def)
  qed
  from a b c d show ?thesis by blast
qed

theorem identity_match_witness:
  "DMI_SYS_VENDOR scenario_dmi = Some ''Acer Inc.'' \<and>
   DMI_BIOS_VERSION scenario_dmi = Some ''V1.06.2024'' \<and>
   DMI_PRODUCT_NAME scenario_dmi = Some ''Predator PH517-51 Gen 1'' \<and>
   list_supported module_loaded = 0 \<and>
   fst (acerhdf_check_hardware bios_tbl scenario_dmi module_loaded) = Inr () \<and>
   ctrl_cfg (snd (acerhdf_check_hardware bios_tbl scenario_dmi module_loaded)) =
     copy_ctrl_settings (hd bios_tbl) \<and>
   fst (acerhdf_check_hardware bios_tbl dell_dmi module_loaded) = Inl EINVAL \<and>
   fst (acerhdf_init bios_tbl dell_dmi no_registration module_loaded) = Inl EINVAL"
proof -
  have h: "DMI_SYS_VENDOR scenario_dmi = Some ''Acer Inc.''"
    "DMI_BIOS_VERSION scenario_dmi = Some ''V1.06.2024''"
    "DMI_PRODUCT_NAME scenario_dmi = Some ''Predator PH517-51 Gen 1''"
    by (simp_all add: scenario_dmi_def)
  have d: "DMI_SYS_VENDOR dell_dmi = Some ''Dell''"
    "DMI_BIOS_VERSION dell_dmi = Some ''V1.06''"
    "DMI_PRODUCT_NAME dell_dmi = Some ''Predator PH517-51''"
    by (simp_all add: dell_dmi_def)
  have l: "list_supported module_loaded = 0"
    by (simp add: module_loaded_def)
  have rows: "rows_before_sentinel bios_tbl = [hd bios_tbl]"
    by (simp add: rows_before_sentinel_def bios_tbl_def)
  have obs: "observed_product module_loaded p = p" "observed_version module_loaded v = v" for p v
    by (simp_all add: observed_product_def observed_version_def module_loaded_def)
  have m: "row_matches ''Acer Inc.'' ''Predator PH517-51 Gen 1'' ''V1.06.2024'' (hd bios_tbl)"
    by (simp add: row_matches_def spec_is_prefix_def bios_tbl_def)
  have n: "\<not> row_matches ''Dell'' ''Predator PH517-51'' ''V1.06'' (hd bios_tbl)"
    by (simp add: row_matches_def spec_is_prefix_def bios_tbl_def)
  from identity_match [OF h l, where tbl = bios_tbl and i = 0]
    identity_match [OF d l, where tbl = bios_tbl and register = no_registration]
    h l m n
  show ?thesis by (simp add: rows obs)
qed


end
